theory Spec2Isabelle
  imports Complex_Main
begin

section \<open>Documents, collections and responses\<close>

text \<open>
  The backend keeps three Mongoose collections (Event, User, Booking), talks to the Razorpay
  gateway and writes to the console. A collection is a list of documents in insertion
  order; \<open>findById\<close> and \<open>findOne\<close> return the first match, \<open>deleteOne\<close> removes the
  first match and \<open>save\<close> replaces the first document carrying the same identifier.
  Database calls are total here: the \<open>catch\<close> branches that the booking and admin
  controllers keep for a rejected database promise (HTTP 500) have no counterpart.
  Identifiers are plain strings, and a string field of a request is a string, absent or
  present. Each handler runs from its first line to its answer without another request in
  between.
\<close>

record event_doc =
  event_id :: string
  title :: string

record user_doc =
  user_id :: string
  name :: string
  email :: string
  role :: string

text \<open>
  Modelled from the spec: the Booking schema (models/Booking.js) is not among the sources.
  The fields \<open>user\<close>, \<open>event\<close> and \<open>status\<close> are the ones the booking controller reads
  and writes; \<open>orderId\<close> and \<open>paymentId\<close> are named by the commented-out persistence of
  the payment controller (the spec's gatewayOrderId and gatewayPaymentId), and
  \<open>holdExpiresAt\<close> is the expiry time of the spec's data model. No handler reads or writes
  the last three.
\<close>

record booking =
  booking_id :: string
  user :: string
  event :: string
  status :: string
  orderId :: "string option"
  paymentId :: "string option"
  holdExpiresAt :: "nat option"

text \<open>
  A number of a parsed request body or of a gateway answer: a finite double, which is a
  rational number, or one of the infinities that \<open>JSON.parse\<close> gives for a literal
  beyond the range of doubles. Arithmetic on doubles is not modelled; the three operations
  the payment controller applies to numbers are parameters, as the digest is.
\<close>

datatype number = Num rat | Infinity | NegInfinity

record numerics =
  round_times_100 :: "number \<Rightarrow> number"
  toString :: "number \<Rightarrow> string"
  div_100 :: "number \<Rightarrow> number"

text \<open>The arguments of one \<open>razorpay.orders.create\<close> call.\<close>

record order_options =
  amount :: number
  currency :: string
  receipt :: string
  notes_eventId :: string
  notes_ticketCount :: string

text \<open>
  The state the handlers act on: the three collections, the order requests sent to the
  gateway so far, and the lines written to the console.
\<close>

record system =
  events :: "event_doc list"
  users :: "user_doc list"
  bookings :: "booking list"
  gateway_orders :: "order_options list"
  console :: "string list"

text \<open>
  What \<open>res.status(c).json({success, message, ...})\<close> sends: the status code, the two
  fields every handler uses, the handler's own payload (\<open>data\<close>, \<open>order\<close>, ...) when it
  sends one, and the \<open>error\<close> text of a \<open>catch\<close> branch.
\<close>

record 'a response =
  statusCode :: nat
  success :: bool
  message :: "string option"
  payload :: "'a option"
  error :: "string option"

definition reject :: "nat \<Rightarrow> string \<Rightarrow> 'a response" where
  "reject c m =
     \<lparr>statusCode = c, success = False, message = Some m, payload = None, error = None\<rparr>"

definition accept :: "nat \<Rightarrow> string option \<Rightarrow> 'a option \<Rightarrow> 'a response" where
  "accept c m p = \<lparr>statusCode = c, success = True, message = m, payload = p, error = None\<rparr>"

text \<open>The payment controller's \<open>catch\<close> branch: a fixed message and \<open>error.message\<close>.\<close>

definition failure :: "string \<Rightarrow> string \<Rightarrow> 'a response" where
  "failure m err =
     \<lparr>statusCode = 500, success = False, message = Some m, payload = None, error = Some err\<rparr>"

definition findById :: "('a \<Rightarrow> string) \<Rightarrow> 'a list \<Rightarrow> string \<Rightarrow> 'a option" where
  "findById key docs i = find (\<lambda>d. key d = i) docs"

fun deleteOne :: "('a \<Rightarrow> string) \<Rightarrow> string \<Rightarrow> 'a list \<Rightarrow> 'a list" where
  "deleteOne key i [] = []"
| "deleteOne key i (d # ds) = (if key d = i then ds else d # deleteOne key i ds)"

fun save :: "booking \<Rightarrow> booking list \<Rightarrow> booking list" where
  "save d [] = []"
| "save d (b # bs) = (if booking_id b = booking_id d then d # bs else b # save d bs)"

text \<open>JavaScript truthiness of an optional string: \<open>undefined\<close> and \<open>''\<close> are falsy.\<close>

definition truthy :: "string option \<Rightarrow> string option" where
  "truthy v = (case v of None \<Rightarrow> None | Some x \<Rightarrow> if x = [] then None else Some x)"

fun join :: "string \<Rightarrow> string list \<Rightarrow> string" where
  "join sep [] = []"
| "join sep [x] = x"
| "join sep (x # y # ys) = x @ sep @ join sep (y # ys)"

section \<open>Booking controller\<close>

text \<open>
  \<open>bookEvent\<close>: \<open>req.body.eventId\<close> may be absent, \<open>req.user.id\<close> is set by the
  authentication middleware. \<open>Booking.create\<close> stores the two fields it is given; the
  identifier \<open>newId\<close> is the one the driver generates and \<open>defaultStatus\<close> is the default
  of the schema, which is not among the sources.
\<close>

record book_req =
  body_eventId :: "string option"
  req_user_id :: string

definition bookEvent :: "string \<Rightarrow> string \<Rightarrow> book_req \<Rightarrow> system \<Rightarrow> booking response \<times> system" where
  "bookEvent newId defaultStatus req s =
     (case body_eventId req of
        None \<Rightarrow> (reject 404 ''Event not found'', s)
      | Some eventId \<Rightarrow>
          (case findById event_id (events s) eventId of
             None \<Rightarrow> (reject 404 ''Event not found'', s)
           | Some ev \<Rightarrow>
               (case find (\<lambda>b. user b = req_user_id req \<and> event b = eventId) (bookings s) of
                  Some existingBooking \<Rightarrow> (reject 400 ''You already booked this event'', s)
                | None \<Rightarrow>
                    let b = \<lparr>booking_id = newId, user = req_user_id req, event = eventId,
                             status = defaultStatus, orderId = None, paymentId = None,
                             holdExpiresAt = None\<rparr>
                    in (accept 201 None (Some b),
                        s\<lparr>bookings := bookings s @ [b]\<rparr>))))"

text \<open>\<open>getMyBookings\<close>: the caller's bookings, each with its event populated.\<close>

definition getMyBookings :: "string \<Rightarrow> system \<Rightarrow> (booking \<times> event_doc option) list response \<times> system" where
  "getMyBookings uid s =
     (accept 200 None
        (Some (map (\<lambda>b. (b, findById event_id (events s) (event b)))
                 (filter (\<lambda>b. user b = uid) (bookings s)))), s)"

definition validStatuses :: "string list" where
  "validStatuses = [''booked'', ''cancelled'', ''confirmed'', ''attended'']"

text \<open>The re-read of the updated booking with its user and event populated.\<close>

definition populated :: "system \<Rightarrow> string \<Rightarrow> (booking \<times> user_doc option \<times> event_doc option) option" where
  "populated s i =
     (case findById booking_id (bookings s) i of
        None \<Rightarrow> None
      | Some b \<Rightarrow> Some (b, findById user_id (users s) (user b), findById event_id (events s) (event b)))"

definition adminUpdateBooking ::
  "string \<Rightarrow> string option \<Rightarrow> system \<Rightarrow> (booking \<times> user_doc option \<times> event_doc option) response \<times> system" where
  "adminUpdateBooking i st s =
     (if (case truthy st of None \<Rightarrow> False | Some v \<Rightarrow> v \<notin> set validStatuses)
      then (reject 400 (''Invalid status. Valid statuses are: '' @ join '', '' validStatuses), s)
      else
        (case findById booking_id (bookings s) i of
           None \<Rightarrow> (reject 404 ''Booking not found'', s)
         | Some b \<Rightarrow>
             let b' = (case truthy st of None \<Rightarrow> b | Some v \<Rightarrow> b\<lparr>status := v\<rparr>);
                 s' = s\<lparr>bookings := save b' (bookings s)\<rparr>
             in (accept 200 (Some ''Booking updated successfully'') (populated s' i), s')))"

definition adminDeleteBooking :: "string \<Rightarrow> system \<Rightarrow> unit response \<times> system" where
  "adminDeleteBooking i s =
     (case findById booking_id (bookings s) i of
        None \<Rightarrow> (reject 404 ''Booking not found'', s)
      | Some b \<Rightarrow>
          (accept 200 (Some ''Booking deleted successfully'') None,
           s\<lparr>bookings := deleteOne booking_id (booking_id b) (bookings s)\<rparr>))"

section \<open>Admin controller: deleting a user\<close>

text \<open>\<open>deleteUser\<close>: \<open>req.params.id\<close> names the target, \<open>req.user.id\<close> the caller.\<close>

definition deleteUser :: "string \<Rightarrow> string \<Rightarrow> system \<Rightarrow> unit response \<times> system" where
  "deleteUser params_id caller s =
     (case findById user_id (users s) params_id of
        None \<Rightarrow> (reject 404 ''User not found'', s)
      | Some u \<Rightarrow>
          if user_id u = caller
          then (reject 400 ''You cannot delete your own account'', s)
          else (accept 200 (Some ''User deleted successfully'') None,
                s\<lparr>users := deleteOne user_id (user_id u) (users s)\<rparr>))"

section \<open>Payment controller\<close>

text \<open>
  Outside the controller, and taken as parameters: the digest
  \<open>crypto.createHmac('sha256', key).update(body).digest('hex')\<close> as \<open>hmac key body\<close>,
  \<open>JSON.stringify\<close> as \<open>stringify\<close>, and the gateway call \<open>razorpay.orders.create\<close>,
  which returns the order or the message of the error it throws, and the operations on
  numbers. A numeric field of a request body is a number, absent or present, and a string
  field a string, absent or present. Of the controller's five handlers the three that the
  properties below are about are modelled: \<open>createOrder\<close>, \<open>verifyPayment\<close> and
  \<open>handleWebhook\<close>.
\<close>

text \<open>\<open>!n\<close> on an optional number: \<open>undefined\<close> and zero are falsy.\<close>

definition nonzero :: "number option \<Rightarrow> number option" where
  "nonzero v = (case v of None \<Rightarrow> None | Some n \<Rightarrow> if n = Num 0 then None else Some n)"

text \<open>\<open>process.env.X || d\<close>.\<close>

definition or_default :: "string option \<Rightarrow> string \<Rightarrow> string" where
  "or_default v d = (case truthy v of None \<Rightarrow> d | Some x \<Rightarrow> x)"

text \<open>
  What a call reads from its surroundings: the two environment variables, the two readings
  of \<open>Date.now()\<close> in \<open>createOrder\<close> (for the receipt and for the booking identifier)
  and the nine characters cut from \<open>Math.random().toString(36)\<close>.
\<close>

record env =
  RAZORPAY_KEY_SECRET :: "string option"
  RAZORPAY_WEBHOOK_SECRET :: "string option"
  now_receipt :: nat
  now_bookingId :: nat
  random :: string

record gateway_order =
  order_id :: string
  order_amount :: number
  order_currency :: string
  order_receipt :: string

text \<open>
  The body of a create-order request. The handler destructures four fields; whatever else
  the body carries stays in \<open>other_fields\<close> and is never read.
\<close>

record create_req =
  eventId :: "string option"
  ticketCount :: "number option"
  req_amount :: "number option"
  req_currency :: "string option"
  other_fields :: "(string \<times> string) list"

record order_view =
  view_id :: string
  view_amount :: number
  view_currency :: string
  view_receipt :: string
  view_bookingId :: string

text \<open>
  The options of the order request. \<open>round_times_100\<close> is \<open>Math.round(amount * 100)\<close>
  and \<open>toString\<close> is the conversion of a number to a string, by \<open>toString()\<close> or in
  a template literal; \<open>Date.now()\<close> is a count of milliseconds.
\<close>

definition order_options_of ::
  "numerics \<Rightarrow> env \<Rightarrow> string \<Rightarrow> number \<Rightarrow> number \<Rightarrow> string option \<Rightarrow> order_options" where
  "order_options_of nm e eid tc amt cur =
     \<lparr>amount = round_times_100 nm amt,
      currency = (case cur of None \<Rightarrow> ''INR'' | Some c \<Rightarrow> c),
      receipt = ''booking_'' @ eid @ ''_'' @ toString nm (Num (of_nat (now_receipt e))),
      notes_eventId = eid,
      notes_ticketCount = toString nm tc\<rparr>"

text \<open>\<open>div_100\<close> is \<open>order.amount / 100\<close>.\<close>

definition createOrder ::
  "numerics \<Rightarrow> (order_options \<Rightarrow> string + gateway_order) \<Rightarrow> env \<Rightarrow> create_req \<Rightarrow> system
     \<Rightarrow> order_view response \<times> system" where
  "createOrder nm orders_create e req s =
     (case (truthy (eventId req), nonzero (ticketCount req), nonzero (req_amount req)) of
        (Some eid, Some tc, Some amt) \<Rightarrow>
          let options = order_options_of nm e eid tc amt (req_currency req);
              s' = s\<lparr>gateway_orders := gateway_orders s @ [options]\<rparr>
          in (case orders_create options of
                Inl err \<Rightarrow>
                  (failure ''Failed to create payment order'' err,
                   s'\<lparr>console := console s' @ [''Error creating payment order: '' @ err]\<rparr>)
              | Inr order \<Rightarrow>
                  let bookingId = ''booking_'' @ toString nm (Num (of_nat (now_bookingId e)))
                                    @ ''_'' @ random e
                  in (accept 200 None
                        (Some \<lparr>view_id = order_id order,
                               view_amount = div_100 nm (order_amount order),
                               view_currency = order_currency order,
                               view_receipt = order_receipt order,
                               view_bookingId = bookingId\<rparr>), s'))
      | _ \<Rightarrow> (reject 400 ''Missing required fields: eventId, ticketCount, amount'', s))"

record verify_req =
  razorpay_order_id :: "string option"
  razorpay_payment_id :: "string option"
  razorpay_signature :: "string option"
  bookingId :: "string option"

definition expectedSignature :: "(string \<Rightarrow> string \<Rightarrow> string) \<Rightarrow> env \<Rightarrow> string \<Rightarrow> string \<Rightarrow> string" where
  "expectedSignature hmac e oid pid =
     hmac (or_default (RAZORPAY_KEY_SECRET e) ''YOUR_KEY_SECRET'') (oid @ ''|'' @ pid)"

definition verifyPayment ::
  "(string \<Rightarrow> string \<Rightarrow> string) \<Rightarrow> env \<Rightarrow> verify_req \<Rightarrow> system
     \<Rightarrow> (string option \<times> string) response \<times> system" where
  "verifyPayment hmac e req s =
     (case (truthy (razorpay_order_id req), truthy (razorpay_payment_id req),
            truthy (razorpay_signature req)) of
        (Some oid, Some pid, Some sg) \<Rightarrow>
          let isAuthentic = (expectedSignature hmac e oid pid = sg)
          in if \<not> isAuthentic
             then (reject 400 ''Payment verification failed - Invalid signature'', s)
             else (accept 200 (Some ''Payment verified successfully'')
                     (Some (bookingId req, pid)), s)
      | _ \<Rightarrow> (reject 400 ''Missing payment verification data'', s))"

text \<open>
  A webhook delivery: the request headers and the parsed body. \<open>payload.payment.entity.id\<close>
  throws a TypeError when \<open>payload\<close>, \<open>payload.payment\<close> or its \<open>entity\<close> is undefined,
  and reads \<open>undefined\<close> when only the \<open>id\<close> is.
\<close>

record webhook_payload =
  payment :: "string option option option"
  refund :: "string option option option"

record webhook_body =
  event_type :: "string option"
  webhook_payload :: "webhook_payload option"

record webhook_req =
  headers :: "(string \<times> string) list"
  body :: webhook_body

definition entity_id ::
  "(webhook_payload \<Rightarrow> string option option option) \<Rightarrow> webhook_payload option \<Rightarrow> unit + string" where
  "entity_id field p =
     (case p of
        None \<Rightarrow> Inl ()
      | Some pl \<Rightarrow>
          (case field pl of
             None \<Rightarrow> Inl ()
           | Some None \<Rightarrow> Inl ()
           | Some (Some None) \<Rightarrow> Inr ''undefined''
           | Some (Some (Some i)) \<Rightarrow> Inr i))"

text \<open>The line the \<open>switch\<close> logs, or the TypeError it throws.\<close>

definition webhook_log :: "webhook_body \<Rightarrow> unit + string" where
  "webhook_log b =
     (case event_type b of
        None \<Rightarrow> Inr ''Unhandled webhook event: undefined''
      | Some ev \<Rightarrow>
          if ev = ''payment.captured''
          then map_sum id ((@) ''Payment captured: '') (entity_id payment (webhook_payload b))
          else if ev = ''payment.failed''
          then map_sum id ((@) ''Payment failed: '') (entity_id payment (webhook_payload b))
          else if ev = ''refund.created''
          then map_sum id ((@) ''Refund created: '') (entity_id refund (webhook_payload b))
          else Inr (''Unhandled webhook event: '' @ ev))"

definition handleWebhook ::
  "(string \<Rightarrow> string \<Rightarrow> string) \<Rightarrow> (webhook_body \<Rightarrow> string) \<Rightarrow> env \<Rightarrow> webhook_req \<Rightarrow> system
     \<Rightarrow> bool response \<times> system" where
  "handleWebhook hmac stringify e req s =
     (let secret = or_default (RAZORPAY_WEBHOOK_SECRET e) ''webhook_secret'';
          signature = map_of (headers req) ''x-razorpay-signature'';
          expected = hmac secret (stringify (body req))
      in if signature \<noteq> Some expected
         then (reject 400 ''Invalid signature'', s)
         else (case webhook_log (body req) of
                 Inl _ \<Rightarrow>
                   (reject 500 ''Webhook processing failed'',
                    s\<lparr>console := console s @ [''Webhook error: TypeError'']\<rparr>)
               | Inr line \<Rightarrow>
                   (accept 200 None (Some True), s\<lparr>console := console s @ [line]\<rparr>)))"

section \<open>The booking controller as one step\<close>

datatype request =
    BookEvent string string book_req
  | GetMyBookings string
  | AdminUpdateBooking string "string option"
  | AdminDeleteBooking string

text \<open>The state a request to the booking controller leaves behind.\<close>

fun exec :: "request \<Rightarrow> system \<Rightarrow> system" where
  "exec (BookEvent newId dflt r) s = snd (bookEvent newId dflt r s)"
| "exec (GetMyBookings u) s = snd (getMyBookings u s)"
| "exec (AdminUpdateBooking i st) s = snd (adminUpdateBooking i st s)"
| "exec (AdminDeleteBooking i) s = snd (adminDeleteBooking i s)"

section \<open>Repeated calls\<close>

text \<open>
  The same create-order body sent once per element of \<open>es\<close>, each call with its own
  clock readings and random string: the answers, in order, and the final state.
\<close>

fun createOrders ::
  "numerics \<Rightarrow> (order_options \<Rightarrow> string + gateway_order) \<Rightarrow> create_req \<Rightarrow> env list \<Rightarrow> system
     \<Rightarrow> order_view response list \<times> system" where
  "createOrders nm orders_create req [] s = ([], s)"
| "createOrders nm orders_create req (e # es) s =
     (let (a, s') = createOrder nm orders_create e req s;
          (as, s'') = createOrders nm orders_create req es s'
      in (a # as, s''))"

text \<open>The same webhook delivered \<open>n\<close> times: the answers, in order, and the final state.\<close>

fun deliver ::
  "(string \<Rightarrow> string \<Rightarrow> string) \<Rightarrow> (webhook_body \<Rightarrow> string) \<Rightarrow> env \<Rightarrow> webhook_req \<Rightarrow> nat
     \<Rightarrow> system \<Rightarrow> bool response list \<times> system" where
  "deliver hmac stringify e req 0 s = ([], s)"
| "deliver hmac stringify e req (Suc n) s =
     (let (a, s') = handleWebhook hmac stringify e req s;
          (as, s'') = deliver hmac stringify e req n s'
      in (a # as, s''))"

section \<open>The state machine of the design document\<close>

text \<open>
  The transition table of the specification (section 4.3), in its own words: a booking
  leaves \<open>pending\<close> for \<open>confirmed\<close>, \<open>failed\<close>, \<open>expired\<close> or \<open>cancelled\<close>, and
  \<open>confirmed\<close> for \<open>refunded\<close>; every other pair of states is an invalid transition.
  This is the graph the handlers are compared with, not a translation of any source
  function.
\<close>

definition spec_transition :: "string \<Rightarrow> string \<Rightarrow> bool" where
  "spec_transition a b =
     ((a = ''pending'' \<and> (b = ''confirmed'' \<or> b = ''failed'' \<or> b = ''expired'' \<or> b = ''cancelled''))
      \<or> (a = ''confirmed'' \<and> b = ''refunded''))"

section \<open>Sample data\<close>

text \<open>
  A small deployment for the closed examples: one event, an administrator and a customer,
  a gateway that accepts every order, and stand-ins for the digest, the serialiser and the
  operations on numbers. The theorems below hold for every digest, serialiser, gateway and
  arithmetic; the examples only need some.
\<close>

definition sample_hmac :: "string \<Rightarrow> string \<Rightarrow> string" where
  "sample_hmac key msg = key @ ''#'' @ msg"

definition sample_stringify :: "webhook_body \<Rightarrow> string" where
  "sample_stringify b = (case event_type b of None \<Rightarrow> ''{}'' | Some ev \<Rightarrow> ev)"

text \<open>
  Stand-ins for the three operations on numbers. They compute on the rational value and
  agree with the operations on doubles at the numbers of the examples, which are integers
  of small size: \<open>decimal\<close> writes the decimal digits of a natural number, and the
  rounding is the one of \<open>Math.round\<close>, to the nearest integer and upwards from a half.
\<close>

definition digit :: "nat \<Rightarrow> char" where
  "digit d = ''0123456789'' ! d"

fun decimal :: "nat \<Rightarrow> string" where
  "decimal n = (if n < 10 then [digit n] else decimal (n div 10) @ [digit (n mod 10)])"

definition sample_numerics :: numerics where
  "sample_numerics =
     \<lparr>round_times_100 =
        (\<lambda>x. case x of Num q \<Rightarrow> Num (of_int (round (q * 100))) | _ \<Rightarrow> x),
      toString =
        (\<lambda>x. case x of
               Num q \<Rightarrow> (if q < 0 then CHR ''-'' # decimal (nat \<lfloor>- q\<rfloor>) else decimal (nat \<lfloor>q\<rfloor>))
             | Infinity \<Rightarrow> ''Infinity''
             | NegInfinity \<Rightarrow> ''-Infinity''),
      div_100 = (\<lambda>x. case x of Num q \<Rightarrow> Num (q / 100) | _ \<Rightarrow> x)\<rparr>"

definition sample_gateway :: "order_options \<Rightarrow> string + gateway_order" where
  "sample_gateway opt =
     Inr \<lparr>order_id = ''order_'' @ receipt opt, order_amount = amount opt,
          order_currency = currency opt, order_receipt = receipt opt\<rparr>"

definition sample_system :: system where
  "sample_system =
     \<lparr>events = [\<lparr>event_id = ''E1'', title = ''Concert''\<rparr>],
      users = [\<lparr>user_id = ''A1'', name = ''Admin'', email = ''admin@example.org'', role = ''admin''\<rparr>,
               \<lparr>user_id = ''U1'', name = ''User'', email = ''user@example.org'', role = ''user''\<rparr>],
      bookings = [],
      gateway_orders = [],
      console = []\<rparr>"

definition sample_env :: env where
  "sample_env =
     \<lparr>RAZORPAY_KEY_SECRET = None, RAZORPAY_WEBHOOK_SECRET = None,
      now_receipt = 1000, now_bookingId = 1001, random = ''k3j9x0q2a''\<rparr>"

definition sample_booking :: "string \<Rightarrow> booking" where
  "sample_booking st =
     \<lparr>booking_id = ''B1'', user = ''U1'', event = ''E1'', status = st,
      orderId = Some ''O1'', paymentId = None, holdExpiresAt = Some 900\<rparr>"

definition sample_create :: create_req where
  "sample_create =
     \<lparr>eventId = Some ''E1'', ticketCount = Some (Num 2), req_amount = Some (Num 200),
      req_currency = None,
      other_fields = [(''userId'', ''U1''), (''idempotencyKey'', ''K1'')]\<rparr>"

definition sample_verify :: verify_req where
  "sample_verify =
     \<lparr>razorpay_order_id = Some ''O1'', razorpay_payment_id = Some ''P1'',
      razorpay_signature = Some ''YOUR_KEY_SECRET#O1|P1'', bookingId = Some ''B1''\<rparr>"

definition sample_webhook :: webhook_req where
  "sample_webhook =
     \<lparr>headers = [(''x-razorpay-event-id'', ''evt_1''),
                 (''x-razorpay-signature'', ''webhook_secret#payment.captured'')],
      body = \<lparr>event_type = Some ''payment.captured'',
               webhook_payload = Some \<lparr>payment = Some (Some (Some ''P1'')), refund = None\<rparr>\<rparr>\<rparr>"

section \<open>Properties of the collections\<close>

declare decimal.simps [simp del]

lemma findById_key: "findById key docs i = Some d \<Longrightarrow> key d = i \<and> d \<in> set docs"
  by (auto simp: findById_def find_Some_iff)

lemma findById_Cons:
  "findById key (d # ds) i = (if key d = i then Some d else findById key ds i)"
  by (simp add: findById_def)

lemma findById_append:
  "findById key (ds @ es) i =
     (case findById key ds i of None \<Rightarrow> findById key es i | Some d \<Rightarrow> Some d)"
  by (induction ds) (auto simp: findById_def)

lemma findById_absent: "i \<notin> key ` set ds \<Longrightarrow> findById key ds i = None"
  by (auto simp: findById_def find_None_iff)

lemma save_found_aux:
  "find (\<lambda>d. booking_id d = booking_id b) bs = Some b \<Longrightarrow> save b bs = bs"
  by (induction bs) (auto split: if_splits)

lemma save_found: "findById booking_id bs i = Some b \<Longrightarrow> save b bs = bs"
  using findById_key [of booking_id bs i b] save_found_aux [of b bs]
  by (simp add: findById_def)

lemma findById_save:
  "findById booking_id (save d bs) j =
     (if j = booking_id d then map_option (\<lambda>_. d) (findById booking_id bs j)
      else findById booking_id bs j)"
  by (induction bs) (auto simp: findById_def)

lemma findById_deleteOne_other:
  "j \<noteq> i \<Longrightarrow> findById key (deleteOne key i ds) j = findById key ds j"
  by (induction ds) (auto simp: findById_def)

lemma findById_deleteOne_same:
  "distinct (map key ds) \<Longrightarrow> findById key (deleteOne key i ds) i = None"
  by (induction ds) (auto simp: findById_absent findById_Cons)

lemma length_deleteOne:
  "findById key ds i = Some d \<Longrightarrow> Suc (length (deleteOne key i ds)) = length ds"
  by (induction ds) (auto simp: findById_def split: if_splits)

section \<open>Booking an event\<close>

lemma bookEvent_duplicate:
  assumes "findById event_id (events s) eid = Some ev"
    and "b \<in> set (bookings s)" and "user b = uid" and "event b = eid"
  shows "bookEvent newId dflt \<lparr>body_eventId = Some eid, req_user_id = uid\<rparr> s
           = (reject 400 ''You already booked this event'', s)"
proof -
  from assms(2-4) have "find (\<lambda>b. user b = uid \<and> event b = eid) (bookings s) \<noteq> None"
    by (auto simp: find_None_iff)
  then obtain b' where "find (\<lambda>b. user b = uid \<and> event b = eid) (bookings s) = Some b'"
    by blast
  with assms(1) show ?thesis
    by (simp add: bookEvent_def)
qed

lemma bookEvent_fresh:
  assumes "findById event_id (events s) eid = Some ev"
    and "\<forall>b \<in> set (bookings s). \<not> (user b = uid \<and> event b = eid)"
  shows "bookEvent newId dflt \<lparr>body_eventId = Some eid, req_user_id = uid\<rparr> s
           = (let b = \<lparr>booking_id = newId, user = uid, event = eid, status = dflt,
                       orderId = None, paymentId = None, holdExpiresAt = None\<rparr>
              in (accept 201 None (Some b), s\<lparr>bookings := bookings s @ [b]\<rparr>))"
proof -
  from assms(2) have "find (\<lambda>b. user b = uid \<and> event b = eid) (bookings s) = None"
    by (simp add: find_None_iff)
  with assms(1) show ?thesis
    by (simp add: bookEvent_def Let_def)
qed

text \<open>An event that is not in the store is answered with 404 before any booking is read.\<close>

lemma bookEvent_unknown_event:
  assumes "findById event_id (events s) eid = None"
  shows "bookEvent newId dflt \<lparr>body_eventId = Some eid, req_user_id = uid\<rparr> s
           = (reject 404 ''Event not found'', s)"
  using assms by (simp add: bookEvent_def)

text \<open>No call adds a second booking for a pair of user and event.\<close>

lemma bookEvent_pairs_distinct:
  assumes "distinct (map (\<lambda>b. (user b, event b)) (bookings s))"
  shows "distinct (map (\<lambda>b. (user b, event b)) (bookings (snd (bookEvent n d q s))))"
  using assms
  by (auto simp: bookEvent_def Let_def find_None_iff split: option.splits)

text \<open>
  C9. For a user and an event of the store, \<open>bookEvent\<close> answers 400 with
  \<open>success = false\<close> and the message "You already booked this event" when a booking of
  that user for that event exists, and leaves the store as it was; otherwise it appends
  exactly one booking, of that user for that event, and answers 201 with it. A collection
  with at most one booking for each pair of user and event stays so.
\<close>

theorem bookEvent_one_booking_per_pair:
  assumes "findById event_id (events s) eid = Some ev"
  shows "((\<exists>b \<in> set (bookings s). user b = uid \<and> event b = eid) \<longrightarrow>
           bookEvent newId dflt \<lparr>body_eventId = Some eid, req_user_id = uid\<rparr> s
             = (\<lparr>statusCode = 400, success = False,
                 message = Some ''You already booked this event'',
                 payload = None, error = None\<rparr>, s)) \<and>
         (\<not> (\<exists>b \<in> set (bookings s). user b = uid \<and> event b = eid) \<longrightarrow>
           bookEvent newId dflt \<lparr>body_eventId = Some eid, req_user_id = uid\<rparr> s
             = (let b = \<lparr>booking_id = newId, user = uid, event = eid, status = dflt,
                         orderId = None, paymentId = None, holdExpiresAt = None\<rparr>
                in (\<lparr>statusCode = 201, success = True, message = None,
                     payload = Some b, error = None\<rparr>,
                    s\<lparr>bookings := bookings s @ [b]\<rparr>))) \<and>
         (distinct (map (\<lambda>b. (user b, event b)) (bookings s)) \<longrightarrow>
           distinct (map (\<lambda>b. (user b, event b))
             (bookings (snd (bookEvent newId dflt \<lparr>body_eventId = Some eid, req_user_id = uid\<rparr> s)))))"
  using bookEvent_duplicate [OF assms] bookEvent_fresh [OF assms]
    bookEvent_pairs_distinct [of s newId dflt "\<lparr>body_eventId = Some eid, req_user_id = uid\<rparr>"]
  unfolding reject_def accept_def by blast

theorem bookEvent_one_booking_per_pair_witness:
  "findById event_id (events sample_system) ''E1''
     = Some \<lparr>event_id = ''E1'', title = ''Concert''\<rparr> \<and>
   bookings (snd (bookEvent ''B1'' ''booked'' \<lparr>body_eventId = Some ''E1'', req_user_id = ''U1''\<rparr>
                    sample_system))
     = [\<lparr>booking_id = ''B1'', user = ''U1'', event = ''E1'', status = ''booked'',
         orderId = None, paymentId = None, holdExpiresAt = None\<rparr>] \<and>
   statusCode (fst (bookEvent ''B2'' ''booked'' \<lparr>body_eventId = Some ''E1'', req_user_id = ''U1''\<rparr>
                      (sample_system\<lparr>bookings := [sample_booking ''booked'']\<rparr>))) = 400"
proof -
  have ev: "findById event_id (events sample_system) ''E1''
              = Some \<lparr>event_id = ''E1'', title = ''Concert''\<rparr>"
    by (simp add: sample_system_def findById_def)
  have ev': "findById event_id (events (sample_system\<lparr>bookings := [sample_booking ''booked'']\<rparr>)) ''E1''
              = Some \<lparr>event_id = ''E1'', title = ''Concert''\<rparr>"
    by (simp add: sample_system_def findById_def)
  show ?thesis
    using ev
      bookEvent_one_booking_per_pair [OF ev, of "''U1''" "''B1''" "''booked''"]
      bookEvent_one_booking_per_pair [OF ev', of "''U1''" "''B2''" "''booked''"]
    by (simp add: sample_system_def sample_booking_def Let_def)
qed

section \<open>Deleting a user\<close>

text \<open>
  C10. When the user found under \<open>req.params.id\<close> is the caller, \<open>deleteUser\<close> answers
  400 with \<open>success = false\<close> and deletes nothing: the whole state, and with it the user
  collection, is the one before the call.
\<close>

theorem deleteUser_refuses_self:
  assumes "findById user_id (users s) i = Some u" and "user_id u = caller"
  shows "deleteUser i caller s
           = (\<lparr>statusCode = 400, success = False,
               message = Some ''You cannot delete your own account'',
               payload = None, error = None\<rparr>, s)"
  using assms by (simp add: deleteUser_def reject_def)

theorem deleteUser_refuses_self_witness:
  "findById user_id (users sample_system) ''A1''
     = Some \<lparr>user_id = ''A1'', name = ''Admin'', email = ''admin@example.org'', role = ''admin''\<rparr> \<and>
   statusCode (fst (deleteUser ''A1'' ''A1'' sample_system)) = 400 \<and>
   \<not> success (fst (deleteUser ''A1'' ''A1'' sample_system)) \<and>
   users (snd (deleteUser ''A1'' ''A1'' sample_system)) = users sample_system"
proof -
  have u: "findById user_id (users sample_system) ''A1''
     = Some \<lparr>user_id = ''A1'', name = ''Admin'', email = ''admin@example.org'', role = ''admin''\<rparr>"
    by (simp add: sample_system_def findById_def)
  show ?thesis
    using u deleteUser_refuses_self [OF u, of "''A1''"] by simp
qed

text \<open>
  Whether or not the caller is still in the store, a request of the caller to delete the
  caller changes nothing: it is answered 404 or 400.
\<close>

lemma deleteUser_self_unchanged:
  "snd (deleteUser caller caller s) = s \<and>
   statusCode (fst (deleteUser caller caller s)) \<in> {400, 404}"
  by (auto simp: deleteUser_def reject_def split: option.splits dest: findById_key)

section \<open>What the booking controller writes\<close>

lemma bookEvent_bookings:
  "bookings (snd (bookEvent n d q s)) = bookings s \<or>
   (\<exists>b. bookings (snd (bookEvent n d q s)) = bookings s @ [b])"
  by (auto simp: bookEvent_def Let_def split: option.splits)

lemma adminUpdateBooking_bookings:
  "bookings (snd (adminUpdateBooking i st s)) = bookings s \<or>
   (\<exists>b v. findById booking_id (bookings s) i = Some b \<and> st = Some v \<and> v \<in> set validStatuses \<and>
      bookings (snd (adminUpdateBooking i st s)) = save (b\<lparr>status := v\<rparr>) (bookings s))"
  by (auto simp: adminUpdateBooking_def Let_def truthy_def save_found
      split: option.splits if_splits)

lemma adminDeleteBooking_bookings:
  "bookings (snd (adminDeleteBooking i s)) =
     (case findById booking_id (bookings s) i of None \<Rightarrow> bookings s
      | Some b \<Rightarrow> deleteOne booking_id i (bookings s))"
  by (auto simp: adminDeleteBooking_def split: option.splits dest: findById_key)

lemma getMyBookings_bookings: "bookings (snd (getMyBookings u s)) = bookings s"
  by (simp add: getMyBookings_def)

text \<open>The four ways in which one request can leave the booking collection.\<close>

lemma exec_bookings:
  obtains (same) "bookings (exec r s) = bookings s"
  | (book) b where "bookings (exec r s) = bookings s @ [b]"
  | (update) i b v where "r = AdminUpdateBooking i (Some v)"
      and "findById booking_id (bookings s) i = Some b" and "v \<in> set validStatuses"
      and "bookings (exec r s) = save (b\<lparr>status := v\<rparr>) (bookings s)"
  | (delete) i b where "r = AdminDeleteBooking i"
      and "findById booking_id (bookings s) i = Some b"
      and "bookings (exec r s) = deleteOne booking_id i (bookings s)"
proof (cases r)
  case (BookEvent n d q)
  then show ?thesis using bookEvent_bookings [of n d q s] same book by auto
next
  case (GetMyBookings u)
  then show ?thesis using same by (simp add: getMyBookings_bookings)
next
  case (AdminUpdateBooking i st)
  then show ?thesis using adminUpdateBooking_bookings [of i st s] same update by auto
next
  case (AdminDeleteBooking i)
  then show ?thesis
    using adminDeleteBooking_bookings [of i s] same delete by (auto split: option.splits)
qed

lemma retained_step:
  assumes "findById booking_id (bookings s) j = Some b" and "r \<noteq> AdminDeleteBooking j"
  shows "\<exists>b'. findById booking_id (bookings (exec r s)) j = Some b' \<and>
           b'\<lparr>status := status b\<rparr> = b \<and>
           ((\<forall>st. r \<noteq> AdminUpdateBooking j st) \<longrightarrow> b' = b)"
proof (cases rule: exec_bookings [of r s])
  case same
  with assms show ?thesis by simp
next
  case (book c)
  with assms show ?thesis by (simp add: findById_append)
next
  case (update i c v)
  show ?thesis
  proof (cases "i = j")
    case True
    with update assms have "c = b" by simp
    with update True assms findById_key [OF assms(1)] show ?thesis
      by (simp add: findById_save)
  next
    case False
    with update assms findById_key [OF update(2)] show ?thesis
      by (auto simp: findById_save)
  qed
next
  case (delete i c)
  with assms have "i \<noteq> j" by auto
  with delete assms show ?thesis by (simp add: findById_deleteOne_other)
qed

lemma status_step:
  assumes "distinct (map booking_id (bookings s))"
    and "findById booking_id (bookings s) j = Some b"
    and "findById booking_id (bookings (exec r s)) j = Some b'"
  shows "status b' = status b \<or>
         (\<exists>v \<in> set validStatuses. r = AdminUpdateBooking j (Some v) \<and> status b' = v)"
proof (cases rule: exec_bookings [of r s])
  case same
  with assms show ?thesis by simp
next
  case (book c)
  with assms show ?thesis by (simp add: findById_append)
next
  case (update i c v)
  show ?thesis
  proof (cases "i = j")
    case True
    with update assms findById_key [OF assms(2)] show ?thesis
      by (auto simp: findById_save)
  next
    case False
    with update assms findById_key [OF update(2)] show ?thesis
      by (auto simp: findById_save)
  qed
next
  case (delete i c)
  show ?thesis
  proof (cases "i = j")
    case True
    with delete assms show ?thesis by (simp add: findById_deleteOne_same)
  next
    case False
    with delete assms show ?thesis by (simp add: findById_deleteOne_other)
  qed
qed

section \<open>Booking states\<close>

text \<open>
  C2, as the code has it. The booking controller has no transition graph: with the
  identifiers of the collection distinct, a request changes the status of a stored booking
  only when it is \<open>adminUpdateBooking\<close> for that booking, and then to the requested value,
  which is one of booked, cancelled, confirmed and attended, whatever the status was
  before. So no request writes \<open>pending\<close> or \<open>refunded\<close> over another status, and every
  one of the four values can be written over every status.
\<close>

theorem status_written_only_by_adminUpdateBooking:
  assumes "distinct (map booking_id (bookings s))"
    and "findById booking_id (bookings s) j = Some b"
  shows "(\<forall>b'. findById booking_id (bookings (exec r s)) j = Some b' \<longrightarrow>
            (status b' = status b \<or>
             (\<exists>v \<in> set validStatuses. r = AdminUpdateBooking j (Some v) \<and> status b' = v)) \<and>
            (status b' = ''pending'' \<longrightarrow> status b = ''pending'') \<and>
            (status b' = ''refunded'' \<longrightarrow> status b = ''refunded'')) \<and>
         (\<forall>v \<in> set validStatuses.
            findById booking_id (bookings (exec (AdminUpdateBooking j (Some v)) s)) j
              = Some (b\<lparr>status := v\<rparr>))"
proof (intro conjI allI impI ballI)
  fix v assume "v \<in> set validStatuses"
  then show "findById booking_id (bookings (exec (AdminUpdateBooking j (Some v)) s)) j
              = Some (b\<lparr>status := v\<rparr>)"
    using assms(2) findById_key [OF assms(2)]
    by (auto simp: adminUpdateBooking_def truthy_def Let_def findById_save validStatuses_def)
next
  fix b' assume after: "findById booking_id (bookings (exec r s)) j = Some b'"
  with assms
  show main: "status b' = status b \<or>
             (\<exists>v \<in> set validStatuses. r = AdminUpdateBooking j (Some v) \<and> status b' = v)"
    by (rule status_step)
  then show "status b' = ''pending'' \<Longrightarrow> status b = ''pending''"
    by (auto simp: validStatuses_def)
  from main show "status b' = ''refunded'' \<Longrightarrow> status b = ''refunded''"
    by (auto simp: validStatuses_def)
qed

theorem status_written_only_by_adminUpdateBooking_witness:
  "distinct (map booking_id (bookings (sample_system\<lparr>bookings := [sample_booking ''cancelled'']\<rparr>))) \<and>
   findById booking_id (bookings (sample_system\<lparr>bookings := [sample_booking ''cancelled'']\<rparr>)) ''B1''
     = Some (sample_booking ''cancelled'') \<and>
   ''booked'' \<in> set validStatuses \<and>
   findById booking_id
     (bookings (exec (AdminUpdateBooking ''B1'' (Some ''booked''))
        (sample_system\<lparr>bookings := [sample_booking ''cancelled'']\<rparr>))) ''B1''
     = Some (sample_booking ''booked'')"
proof -
  let ?s = "sample_system\<lparr>bookings := [sample_booking ''cancelled'']\<rparr>"
  have d: "distinct (map booking_id (bookings ?s))"
    by simp
  have f: "findById booking_id (bookings ?s) ''B1'' = Some (sample_booking ''cancelled'')"
    by (simp add: findById_def sample_booking_def)
  have v: "''booked'' \<in> set validStatuses"
    by (simp add: validStatuses_def)
  show ?thesis
    using d f v status_written_only_by_adminUpdateBooking
        [OF d f, of "AdminUpdateBooking ''B1'' (Some ''booked'')"]
    by (auto simp: sample_booking_def)
qed

text \<open>
  C2 as stated fails: a cancelled booking is set to confirmed by \<open>adminUpdateBooking\<close>,
  and cancelled to confirmed is not an edge of the graph of section 4.3.
\<close>

theorem adminUpdateBooking_off_graph_counterexample:
  "map status (bookings (sample_system\<lparr>bookings := [sample_booking ''cancelled'']\<rparr>))
     = [''cancelled''] \<and>
   map status (bookings (exec (AdminUpdateBooking ''B1'' (Some ''confirmed''))
                  (sample_system\<lparr>bookings := [sample_booking ''cancelled'']\<rparr>)))
     = [''confirmed''] \<and>
   \<not> spec_transition ''cancelled'' ''confirmed''"
  by (simp add: sample_booking_def adminUpdateBooking_def truthy_def validStatuses_def
      findById_def Let_def spec_transition_def)

section \<open>Deleting a booking\<close>

text \<open>
  C8, as the code has it. A stored booking stays readable under its identifier after every
  request to the booking controller except \<open>adminDeleteBooking\<close> for that identifier, and
  only its status can differ, and only after \<open>adminUpdateBooking\<close> for it, which assigns
  the field and saves the document. \<open>adminDeleteBooking\<close> removes the document it found:
  the collection is one shorter and, identifiers being distinct, the booking can no longer
  be read.
\<close>

theorem bookings_removed_only_by_adminDeleteBooking:
  assumes "findById booking_id (bookings s) j = Some b"
  shows "(r \<noteq> AdminDeleteBooking j \<longrightarrow>
            (\<exists>b'. findById booking_id (bookings (exec r s)) j = Some b' \<and>
                  b'\<lparr>status := status b\<rparr> = b \<and>
                  ((\<forall>st. r \<noteq> AdminUpdateBooking j st) \<longrightarrow> b' = b))) \<and>
         (r = AdminDeleteBooking j \<longrightarrow>
            bookings (exec r s) = deleteOne booking_id j (bookings s) \<and>
            Suc (length (bookings (exec r s))) = length (bookings s) \<and>
            (distinct (map booking_id (bookings s)) \<longrightarrow>
               findById booking_id (bookings (exec r s)) j = None))"
proof (intro conjI impI)
  assume del: "r = AdminDeleteBooking j"
  then show "bookings (exec r s) = deleteOne booking_id j (bookings s)"
    using assms by (simp add: adminDeleteBooking_bookings)
  then show "Suc (length (bookings (exec r s))) = length (bookings s)"
    using assms by (simp add: length_deleteOne)
  assume "distinct (map booking_id (bookings s))"
  then show "findById booking_id (bookings (exec r s)) j = None"
    using del assms by (simp add: adminDeleteBooking_bookings findById_deleteOne_same)
next
  assume "r \<noteq> AdminDeleteBooking j"
  with assms show "\<exists>b'. findById booking_id (bookings (exec r s)) j = Some b' \<and>
                  b'\<lparr>status := status b\<rparr> = b \<and>
                  ((\<forall>st. r \<noteq> AdminUpdateBooking j st) \<longrightarrow> b' = b)"
    by (rule retained_step)
qed

theorem bookings_removed_only_by_adminDeleteBooking_witness:
  "findById booking_id (bookings (sample_system\<lparr>bookings := [sample_booking ''confirmed'']\<rparr>)) ''B1''
     = Some (sample_booking ''confirmed'') \<and>
   findById booking_id
     (bookings (exec (BookEvent ''B2'' ''booked'' \<lparr>body_eventId = Some ''E1'', req_user_id = ''A1''\<rparr>)
        (sample_system\<lparr>bookings := [sample_booking ''confirmed'']\<rparr>))) ''B1''
     = Some (sample_booking ''confirmed'') \<and>
   length (bookings (exec (AdminDeleteBooking ''B1'')
        (sample_system\<lparr>bookings := [sample_booking ''confirmed'']\<rparr>))) = 0"
proof -
  let ?s = "sample_system\<lparr>bookings := [sample_booking ''confirmed'']\<rparr>"
  have f: "findById booking_id (bookings ?s) ''B1'' = Some (sample_booking ''confirmed'')"
    by (simp add: findById_def sample_booking_def)
  show ?thesis
    using f
      bookings_removed_only_by_adminDeleteBooking [OF f,
        of "BookEvent ''B2'' ''booked'' \<lparr>body_eventId = Some ''E1'', req_user_id = ''A1''\<rparr>"]
      bookings_removed_only_by_adminDeleteBooking [OF f, of "AdminDeleteBooking ''B1''"]
    by (auto simp: sample_booking_def)
qed

text \<open>
  C8 as stated fails: \<open>adminDeleteBooking\<close> answers 200 and the cancelled booking, a
  terminal state of the design document, is gone from the collection.
\<close>

theorem adminDeleteBooking_hard_delete_counterexample:
  "findById booking_id (bookings (sample_system\<lparr>bookings := [sample_booking ''cancelled'']\<rparr>)) ''B1''
     = Some (sample_booking ''cancelled'') \<and>
   adminDeleteBooking ''B1'' (sample_system\<lparr>bookings := [sample_booking ''cancelled'']\<rparr>)
     = (\<lparr>statusCode = 200, success = True, message = Some ''Booking deleted successfully'',
         payload = None, error = None\<rparr>, sample_system) \<and>
   bookings sample_system = []"
  by (simp add: sample_booking_def sample_system_def adminDeleteBooking_def findById_def
      accept_def)

section \<open>Verifying a payment\<close>

lemma verifyPayment_accept:
  assumes "razorpay_order_id r = Some oid" and "oid \<noteq> []"
    and "razorpay_payment_id r = Some pid" and "pid \<noteq> []"
    and "razorpay_signature r = Some sg" and "sg \<noteq> []"
    and "sg = expectedSignature h e oid pid"
  shows "fst (verifyPayment h e r s)
           = accept 200 (Some ''Payment verified successfully'') (Some (bookingId r, pid))"
  using assms by (simp add: verifyPayment_def truthy_def)

lemma verifyPayment_response:
  "fst (verifyPayment h (e\<lparr>now_receipt := t, now_bookingId := t'\<rparr>) r s')
     = fst (verifyPayment h e r s)"
  by (simp add: verifyPayment_def expectedSignature_def Let_def split: option.splits)

lemma verifyPayment_invalid_signature:
  assumes "razorpay_order_id r = Some oid" and "oid \<noteq> []"
    and "razorpay_payment_id r = Some pid" and "pid \<noteq> []"
    and "razorpay_signature r = Some sg" and "sg \<noteq> []"
    and "sg \<noteq> expectedSignature h e oid pid"
  shows "verifyPayment h e r s
           = (reject 400 ''Payment verification failed - Invalid signature'', s)"
  using assms by (simp add: verifyPayment_def truthy_def)

lemma verifyPayment_missing_data:
  assumes "razorpay_order_id r \<in> {None, Some []} \<or> razorpay_payment_id r \<in> {None, Some []} \<or>
           razorpay_signature r \<in> {None, Some []}"
  shows "verifyPayment h e r s = (reject 400 ''Missing payment verification data'', s)"
  using assms by (auto simp: verifyPayment_def truthy_def split: option.splits)

lemma verifyPayment_rejects_unless_authentic:
  assumes "\<not> (\<exists>oid pid. razorpay_order_id r = Some oid \<and> razorpay_payment_id r = Some pid \<and>
               razorpay_signature r = Some (expectedSignature h e oid pid))"
  shows "statusCode (fst (verifyPayment h e r s)) = 400 \<and>
         \<not> success (fst (verifyPayment h e r s)) \<and> snd (verifyPayment h e r s) = s"
  using assms
  by (auto simp: verifyPayment_def truthy_def reject_def accept_def Let_def
      split: option.splits if_splits)

text \<open>
  C5, as the code has it. A request without the expected signature is answered 400 with
  \<open>success = false\<close>, nothing is thrown and the state, hence every booking, is the one
  before the call. With the three fields present, every signature that differs from the
  expected digest gets one and the same answer, whatever makes it differ. A request in
  which a field, the signature included, is absent or empty is turned away one step
  earlier with a message of its own, "Missing payment verification data".
\<close>

theorem verifyPayment_rejections:
  "(\<forall>oid pid sg. razorpay_order_id r = Some oid \<and> oid \<noteq> [] \<and>
        razorpay_payment_id r = Some pid \<and> pid \<noteq> [] \<and>
        razorpay_signature r = Some sg \<and> sg \<noteq> [] \<and> sg \<noteq> expectedSignature h e oid pid \<longrightarrow>
      verifyPayment h e r s
        = (\<lparr>statusCode = 400, success = False,
            message = Some ''Payment verification failed - Invalid signature'',
            payload = None, error = None\<rparr>, s)) \<and>
   (razorpay_order_id r \<in> {None, Some []} \<or> razorpay_payment_id r \<in> {None, Some []} \<or>
      razorpay_signature r \<in> {None, Some []} \<longrightarrow>
      verifyPayment h e r s
        = (\<lparr>statusCode = 400, success = False,
            message = Some ''Missing payment verification data'',
            payload = None, error = None\<rparr>, s)) \<and>
   (\<not> (\<exists>oid pid. razorpay_order_id r = Some oid \<and> razorpay_payment_id r = Some pid \<and>
          razorpay_signature r = Some (expectedSignature h e oid pid)) \<longrightarrow>
      statusCode (fst (verifyPayment h e r s)) = 400 \<and>
      \<not> success (fst (verifyPayment h e r s)) \<and> snd (verifyPayment h e r s) = s)"
proof (intro conjI allI impI)
  fix oid pid sg
  assume "razorpay_order_id r = Some oid \<and> oid \<noteq> [] \<and>
        razorpay_payment_id r = Some pid \<and> pid \<noteq> [] \<and>
        razorpay_signature r = Some sg \<and> sg \<noteq> [] \<and> sg \<noteq> expectedSignature h e oid pid"
  then show "verifyPayment h e r s
        = (\<lparr>statusCode = 400, success = False,
            message = Some ''Payment verification failed - Invalid signature'',
            payload = None, error = None\<rparr>, s)"
    using verifyPayment_invalid_signature [of r oid pid sg h e s] by (simp add: reject_def)
next
  assume "razorpay_order_id r \<in> {None, Some []} \<or> razorpay_payment_id r \<in> {None, Some []} \<or>
      razorpay_signature r \<in> {None, Some []}"
  then show "verifyPayment h e r s
        = (\<lparr>statusCode = 400, success = False,
            message = Some ''Missing payment verification data'',
            payload = None, error = None\<rparr>, s)"
    using verifyPayment_missing_data [of r h e s] by (simp add: reject_def)
next
  assume a: "\<not> (\<exists>oid pid. razorpay_order_id r = Some oid \<and> razorpay_payment_id r = Some pid \<and>
          razorpay_signature r = Some (expectedSignature h e oid pid))"
  from verifyPayment_rejects_unless_authentic [OF a, of s]
  show "statusCode (fst (verifyPayment h e r s)) = 400"
    and "\<not> success (fst (verifyPayment h e r s))"
    and "snd (verifyPayment h e r s) = s"
    by simp_all
qed

theorem verifyPayment_rejections_witness:
  "''not-a-hex-digest'' \<noteq> expectedSignature sample_hmac sample_env ''O1'' ''P1'' \<and>
   statusCode (fst (verifyPayment sample_hmac sample_env
       (sample_verify\<lparr>razorpay_signature := Some ''not-a-hex-digest''\<rparr>)
       (sample_system\<lparr>bookings := [sample_booking ''pending'']\<rparr>))) = 400 \<and>
   map status (bookings (snd (verifyPayment sample_hmac sample_env
       (sample_verify\<lparr>razorpay_signature := Some ''not-a-hex-digest''\<rparr>)
       (sample_system\<lparr>bookings := [sample_booking ''pending'']\<rparr>)))) = [''pending''] \<and>
   message (fst (verifyPayment sample_hmac sample_env
       (sample_verify\<lparr>razorpay_payment_id := None\<rparr>) sample_system))
     = Some ''Missing payment verification data''"
proof -
  have ne: "''not-a-hex-digest'' \<noteq> expectedSignature sample_hmac sample_env ''O1'' ''P1''"
    by (simp add: expectedSignature_def sample_hmac_def sample_env_def or_default_def truthy_def)
  show ?thesis
    using ne
      verifyPayment_rejections
        [of "sample_verify\<lparr>razorpay_signature := Some ''not-a-hex-digest''\<rparr>"
            sample_hmac sample_env "sample_system\<lparr>bookings := [sample_booking ''pending'']\<rparr>"]
      verifyPayment_rejections
        [of "sample_verify\<lparr>razorpay_payment_id := None\<rparr>" sample_hmac sample_env sample_system]
    by (simp add: sample_verify_def sample_booking_def)
qed

text \<open>
  C5 as stated fails in its last clause: a request whose signature is the empty string and
  a request whose signature is the digest of another payment are both rejected with 400,
  but not with the same answer.
\<close>

theorem verifyPayment_missing_signature_counterexample:
  "fst (verifyPayment sample_hmac sample_env (sample_verify\<lparr>razorpay_signature := Some []\<rparr>)
          (sample_system\<lparr>bookings := [sample_booking ''pending'']\<rparr>))
     = \<lparr>statusCode = 400, success = False,
        message = Some ''Missing payment verification data'', payload = None, error = None\<rparr> \<and>
   fst (verifyPayment sample_hmac sample_env
          (sample_verify\<lparr>razorpay_signature := Some ''YOUR_KEY_SECRET#O1|P2''\<rparr>)
          (sample_system\<lparr>bookings := [sample_booking ''pending'']\<rparr>))
     = \<lparr>statusCode = 400, success = False,
        message = Some ''Payment verification failed - Invalid signature'',
        payload = None, error = None\<rparr> \<and>
   fst (verifyPayment sample_hmac sample_env (sample_verify\<lparr>razorpay_signature := Some []\<rparr>)
          (sample_system\<lparr>bookings := [sample_booking ''pending'']\<rparr>))
     \<noteq> fst (verifyPayment sample_hmac sample_env
          (sample_verify\<lparr>razorpay_signature := Some ''YOUR_KEY_SECRET#O1|P2''\<rparr>)
          (sample_system\<lparr>bookings := [sample_booking ''pending'']\<rparr>))"
  by (simp add: sample_env_def sample_verify_def sample_hmac_def verifyPayment_def
      expectedSignature_def or_default_def truthy_def reject_def)

text \<open>
  C6, as the code has it. With the three fields present and the signature equal to the
  digest of order id, a vertical bar and payment id under the key secret,
  \<open>verifyPayment\<close> answers 200 "Payment verified successfully" and echoes the booking
  identifier and the payment id of the request. The answer is the same in every state: the
  order id is not compared with a stored one.
\<close>

theorem verifyPayment_valid_signature:
  assumes "razorpay_order_id r = Some oid" and "oid \<noteq> []"
    and "razorpay_payment_id r = Some pid" and "pid \<noteq> []"
    and "razorpay_signature r = Some sg" and "sg \<noteq> []"
    and "sg = h (or_default (RAZORPAY_KEY_SECRET e) ''YOUR_KEY_SECRET'') (oid @ ''|'' @ pid)"
  shows "fst (verifyPayment h e r s)
           = \<lparr>statusCode = 200, success = True,
              message = Some ''Payment verified successfully'',
              payload = Some (bookingId r, pid), error = None\<rparr>"
  using verifyPayment_accept [OF assms(1-6), of h e s] assms(7)
  by (simp add: expectedSignature_def accept_def)

theorem verifyPayment_valid_signature_witness:
  "sample_hmac (or_default (RAZORPAY_KEY_SECRET sample_env) ''YOUR_KEY_SECRET'') (''O1'' @ ''|'' @ ''P1'')
     = ''YOUR_KEY_SECRET#O1|P1'' \<and>
   fst (verifyPayment sample_hmac sample_env sample_verify sample_system)
     = \<lparr>statusCode = 200, success = True, message = Some ''Payment verified successfully'',
        payload = Some (Some ''B1'', ''P1''), error = None\<rparr>"
proof -
  have sg: "sample_hmac (or_default (RAZORPAY_KEY_SECRET sample_env) ''YOUR_KEY_SECRET'')
              (''O1'' @ ''|'' @ ''P1'') = ''YOUR_KEY_SECRET#O1|P1''"
    by (simp add: sample_hmac_def sample_env_def or_default_def truthy_def)
  have f: "razorpay_order_id sample_verify = Some ''O1''" "''O1'' \<noteq> []"
    "razorpay_payment_id sample_verify = Some ''P1''" "''P1'' \<noteq> []"
    "razorpay_signature sample_verify = Some ''YOUR_KEY_SECRET#O1|P1''"
    "''YOUR_KEY_SECRET#O1|P1'' \<noteq> []"
    by (simp_all add: sample_verify_def)
  have "fst (verifyPayment sample_hmac sample_env sample_verify sample_system)
          = \<lparr>statusCode = 200, success = True,
             message = Some ''Payment verified successfully'',
             payload = Some (bookingId sample_verify, ''P1''), error = None\<rparr>"
    by (rule verifyPayment_valid_signature
        [where h = sample_hmac and e = sample_env, OF f sg [symmetric]])
  then show ?thesis
    using sg by (simp add: sample_verify_def)
qed

text \<open>
  C6 as stated fails. Before its hold ends, the pending booking B1 with stored order O1 is
  presented with a valid signature: the call answers 200 and B1 is still pending with no
  payment id. And \<open>adminUpdateBooking\<close> sets B1 to confirmed while its payment id stays
  unset, so the payment id is not set exactly in the states confirmed and refunded.
\<close>

theorem verifyPayment_confirms_nothing_counterexample:
  "statusCode (fst (verifyPayment sample_hmac (sample_env\<lparr>now_receipt := 100, now_bookingId := 100\<rparr>)
        sample_verify (sample_system\<lparr>bookings := [sample_booking ''pending'']\<rparr>))) = 200 \<and>
   map (\<lambda>b. (booking_id b, status b, orderId b, paymentId b))
     (bookings (snd (verifyPayment sample_hmac (sample_env\<lparr>now_receipt := 100, now_bookingId := 100\<rparr>)
        sample_verify (sample_system\<lparr>bookings := [sample_booking ''pending'']\<rparr>))))
     = [(''B1'', ''pending'', Some ''O1'', None)] \<and>
   map (\<lambda>b. (booking_id b, status b, orderId b, paymentId b))
     (bookings (exec (AdminUpdateBooking ''B1'' (Some ''confirmed''))
        (sample_system\<lparr>bookings := [sample_booking ''pending'']\<rparr>)))
     = [(''B1'', ''confirmed'', Some ''O1'', None)]"
  by (simp add: sample_booking_def sample_env_def sample_verify_def sample_hmac_def
      verifyPayment_def expectedSignature_def or_default_def truthy_def accept_def
      adminUpdateBooking_def validStatuses_def findById_def Let_def)

text \<open>
  C3, as the code has it. \<open>verifyPayment\<close> has no expiry guard: its answer is the same
  for every reading of the clock and every state, so it depends on the request and the key
  secret alone, and a request with the three fields present and the expected signature is
  answered 200 whenever it arrives.
\<close>

theorem verifyPayment_no_expiry_guard:
  "fst (verifyPayment h (e\<lparr>now_receipt := t, now_bookingId := t'\<rparr>) r s')
     = fst (verifyPayment h e r s) \<and>
   (\<forall>oid pid. razorpay_order_id r = Some oid \<and> oid \<noteq> [] \<and>
        razorpay_payment_id r = Some pid \<and> pid \<noteq> [] \<and>
        razorpay_signature r = Some (expectedSignature h e oid pid) \<and>
        expectedSignature h e oid pid \<noteq> []
      \<longrightarrow> statusCode (fst (verifyPayment h e r s)) = 200)"
proof (intro conjI allI impI)
  show "fst (verifyPayment h (e\<lparr>now_receipt := t, now_bookingId := t'\<rparr>) r s')
          = fst (verifyPayment h e r s)"
    by (rule verifyPayment_response)
next
  fix oid pid
  assume "razorpay_order_id r = Some oid \<and> oid \<noteq> [] \<and>
        razorpay_payment_id r = Some pid \<and> pid \<noteq> [] \<and>
        razorpay_signature r = Some (expectedSignature h e oid pid) \<and>
        expectedSignature h e oid pid \<noteq> []"
  then show "statusCode (fst (verifyPayment h e r s)) = 200"
    using verifyPayment_accept [of r oid pid "expectedSignature h e oid pid" h e s]
    by (simp add: accept_def)
qed

theorem verifyPayment_no_expiry_guard_witness:
  "razorpay_signature sample_verify = Some (expectedSignature sample_hmac sample_env ''O1'' ''P1'') \<and>
   statusCode (fst (verifyPayment sample_hmac sample_env sample_verify sample_system)) = 200 \<and>
   statusCode (fst (verifyPayment sample_hmac
       (sample_env\<lparr>now_receipt := 5000, now_bookingId := 5000\<rparr>) sample_verify
       (sample_system\<lparr>bookings := [sample_booking ''pending'']\<rparr>))) = 200"
proof -
  have sg: "razorpay_signature sample_verify
              = Some (expectedSignature sample_hmac sample_env ''O1'' ''P1'')"
    by (simp add: sample_verify_def expectedSignature_def sample_hmac_def sample_env_def
        or_default_def truthy_def)
  have ne: "expectedSignature sample_hmac sample_env ''O1'' ''P1'' \<noteq> []"
    by (simp add: expectedSignature_def sample_hmac_def)
  have fields: "razorpay_order_id sample_verify = Some ''O1''"
    "razorpay_payment_id sample_verify = Some ''P1''"
    by (simp_all add: sample_verify_def)
  from verifyPayment_no_expiry_guard
    [of sample_hmac 5000 5000 sample_env sample_verify
        "sample_system\<lparr>bookings := [sample_booking ''pending'']\<rparr>" sample_system]
  have "fst (verifyPayment sample_hmac (sample_env\<lparr>now_receipt := 5000, now_bookingId := 5000\<rparr>)
               sample_verify (sample_system\<lparr>bookings := [sample_booking ''pending'']\<rparr>))
          = fst (verifyPayment sample_hmac sample_env sample_verify sample_system)"
    and "statusCode (fst (verifyPayment sample_hmac sample_env sample_verify sample_system)) = 200"
    using sg ne fields by auto
  with sg show ?thesis by simp
qed

text \<open>
  C3 as stated fails: the hold of the pending booking B1 ended at 900, the clock reads
  1000, no payment is recorded, and the call with a valid signature is answered 200, not
  rejected.
\<close>

theorem verifyPayment_expired_hold_counterexample:
  "holdExpiresAt (sample_booking ''pending'') = Some 900 \<and>
   900 < now_receipt sample_env \<and>
   status (sample_booking ''pending'') = ''pending'' \<and>
   paymentId (sample_booking ''pending'') = None \<and>
   fst (verifyPayment sample_hmac sample_env sample_verify
          (sample_system\<lparr>bookings := [sample_booking ''pending'']\<rparr>))
     = \<lparr>statusCode = 200, success = True, message = Some ''Payment verified successfully'',
        payload = Some (Some ''B1'', ''P1''), error = None\<rparr>"
  by (simp add: sample_booking_def sample_env_def sample_verify_def sample_hmac_def
      verifyPayment_def expectedSignature_def or_default_def truthy_def accept_def)

section \<open>Creating an order\<close>

lemma createOrder_missing:
  assumes "eventId q \<in> {None, Some []} \<or> ticketCount q \<in> {None, Some (Num 0)} \<or>
           req_amount q \<in> {None, Some (Num 0)}"
  shows "createOrder nm oc e q s
           = (reject 400 ''Missing required fields: eventId, ticketCount, amount'', s)"
  using assms
  by (auto simp: createOrder_def truthy_def nonzero_def split: option.splits)

lemma createOrder_present:
  assumes "eventId q = Some eid" and "eid \<noteq> []"
    and "ticketCount q = Some tc" and "tc \<noteq> Num 0"
    and "req_amount q = Some amt" and "amt \<noteq> Num 0"
  shows "createOrder nm oc e q s =
           (let options = order_options_of nm e eid tc amt (req_currency q);
                s' = s\<lparr>gateway_orders := gateway_orders s @ [options]\<rparr>
            in case oc options of
                 Inl err \<Rightarrow>
                   (failure ''Failed to create payment order'' err,
                    s'\<lparr>console := console s' @ [''Error creating payment order: '' @ err]\<rparr>)
               | Inr order \<Rightarrow>
                   (accept 200 None
                      (Some \<lparr>view_id = order_id order,
                             view_amount = div_100 nm (order_amount order),
                             view_currency = order_currency order,
                             view_receipt = order_receipt order,
                             view_bookingId =
                               ''booking_'' @ toString nm (Num (of_nat (now_bookingId e)))
                                 @ ''_'' @ random e\<rparr>), s'))"
  using assms by (simp add: createOrder_def truthy_def nonzero_def Let_def split: sum.splits)

lemma createOrder_gateway_orders:
  assumes "eventId q = Some eid" and "eid \<noteq> []"
    and "ticketCount q = Some tc" and "tc \<noteq> Num 0"
    and "req_amount q = Some amt" and "amt \<noteq> Num 0"
  shows "gateway_orders (snd (createOrder nm oc e q s))
           = gateway_orders s @ [order_options_of nm e eid tc amt (req_currency q)]"
  by (simp add: createOrder_present [OF assms] Let_def split: sum.splits)

text \<open>The answer to a call that carries the three fields, in every state.\<close>

lemma createOrder_answer:
  assumes "eventId q = Some eid" and "eid \<noteq> []"
    and "ticketCount q = Some tc" and "tc \<noteq> Num 0"
    and "req_amount q = Some amt" and "amt \<noteq> Num 0"
  shows "fst (createOrder nm oc e q s)
           = (case oc (order_options_of nm e eid tc amt (req_currency q)) of
                Inl err \<Rightarrow>
                  \<lparr>statusCode = 500, success = False,
                   message = Some ''Failed to create payment order'',
                   payload = None, error = Some err\<rparr>
              | Inr order \<Rightarrow>
                  \<lparr>statusCode = 200, success = True, message = None,
                   payload = Some \<lparr>view_id = order_id order,
                                   view_amount = div_100 nm (order_amount order),
                                   view_currency = order_currency order,
                                   view_receipt = order_receipt order,
                                   view_bookingId =
                                     ''booking_'' @ toString nm (Num (of_nat (now_bookingId e)))
                                       @ ''_'' @ random e\<rparr>,
                   error = None\<rparr>)"
  by (simp add: createOrder_present [OF assms] Let_def accept_def failure_def split: sum.splits)

text \<open>
  C1, as the code has it. \<open>createOrder\<close> reads no idempotency key. Every call whose
  body carries eventId, ticketCount and amount sends its own order request to the gateway
  and is answered on its own: a body sent \<open>n\<close> times leaves \<open>n\<close> order requests, one
  per call, and gets \<open>n\<close> answers, each 200 or, when that call's gateway request throws,
  500; and the bookingId of an accepted call is assembled from the clock and the random
  string of that call.
\<close>

theorem createOrder_orders_on_every_call:
  assumes "eventId q = Some eid" and "eid \<noteq> []"
    and "ticketCount q = Some tc" and "tc \<noteq> Num 0"
    and "req_amount q = Some amt" and "amt \<noteq> Num 0"
  shows "gateway_orders (snd (createOrders nm oc q es s))
           = gateway_orders s @ map (\<lambda>e. order_options_of nm e eid tc amt (req_currency q)) es \<and>
         fst (createOrders nm oc q es s)
           = map (\<lambda>e. case oc (order_options_of nm e eid tc amt (req_currency q)) of
                        Inl err \<Rightarrow>
                          \<lparr>statusCode = 500, success = False,
                           message = Some ''Failed to create payment order'',
                           payload = None, error = Some err\<rparr>
                      | Inr order \<Rightarrow>
                          \<lparr>statusCode = 200, success = True, message = None,
                           payload = Some \<lparr>view_id = order_id order,
                                           view_amount = div_100 nm (order_amount order),
                                           view_currency = order_currency order,
                                           view_receipt = order_receipt order,
                                           view_bookingId =
                                             ''booking_''
                                               @ toString nm (Num (of_nat (now_bookingId e)))
                                               @ ''_'' @ random e\<rparr>,
                           error = None\<rparr>) es"
proof (intro conjI)
  show "gateway_orders (snd (createOrders nm oc q es s))
          = gateway_orders s @ map (\<lambda>e. order_options_of nm e eid tc amt (req_currency q)) es"
  proof (induction es arbitrary: s)
    case Nil
    show ?case by simp
  next
    case (Cons e es)
    show ?case
      using Cons [of "snd (createOrder nm oc e q s)"]
        createOrder_gateway_orders [OF assms, of nm oc e s]
      by (simp add: split_beta Let_def)
  qed
next
  show "fst (createOrders nm oc q es s)
           = map (\<lambda>e. case oc (order_options_of nm e eid tc amt (req_currency q)) of
                        Inl err \<Rightarrow>
                          \<lparr>statusCode = 500, success = False,
                           message = Some ''Failed to create payment order'',
                           payload = None, error = Some err\<rparr>
                      | Inr order \<Rightarrow>
                          \<lparr>statusCode = 200, success = True, message = None,
                           payload = Some \<lparr>view_id = order_id order,
                                           view_amount = div_100 nm (order_amount order),
                                           view_currency = order_currency order,
                                           view_receipt = order_receipt order,
                                           view_bookingId =
                                             ''booking_''
                                               @ toString nm (Num (of_nat (now_bookingId e)))
                                               @ ''_'' @ random e\<rparr>,
                           error = None\<rparr>) es"
  proof (induction es arbitrary: s)
    case Nil
    show ?case by simp
  next
    case (Cons e es)
    show ?case
      using Cons [of "snd (createOrder nm oc e q s)"] createOrder_answer [OF assms, of nm oc e s]
      by (simp add: split_beta Let_def)
  qed
qed

theorem createOrder_orders_on_every_call_witness:
  "eventId sample_create = Some ''E1'' \<and> ticketCount sample_create = Some (Num 2) \<and>
   req_amount sample_create = Some (Num 200) \<and>
   length (gateway_orders (snd (createOrders sample_numerics sample_gateway sample_create
       [sample_env, sample_env, sample_env] sample_system))) = 3 \<and>
   map statusCode (fst (createOrders sample_numerics sample_gateway sample_create
       [sample_env, sample_env, sample_env] sample_system)) = [200, 200, 200]"
proof -
  have f: "eventId sample_create = Some ''E1''" "''E1'' \<noteq> []"
    "ticketCount sample_create = Some (Num 2)" "Num 2 \<noteq> Num 0"
    "req_amount sample_create = Some (Num 200)" "Num 200 \<noteq> Num 0"
    by (simp_all add: sample_create_def)
  show ?thesis
    using f createOrder_orders_on_every_call
      [where nm = sample_numerics and oc = sample_gateway
         and es = "[sample_env, sample_env, sample_env]" and s = sample_system, OF f]
    by (simp add: sample_system_def sample_gateway_def)
qed

text \<open>
  C1 as stated fails: the body with idempotency key K1 is sent twice; the gateway receives
  two order requests, the callers are given two different bookingIds, and no booking is
  stored.
\<close>

theorem createOrder_duplicate_counterexample:
  "map_of (other_fields sample_create) ''idempotencyKey'' = Some ''K1'' \<and>
   map (\<lambda>a. map_option view_bookingId (payload a))
     (fst (createOrders sample_numerics sample_gateway sample_create
        [sample_env,
         sample_env\<lparr>now_receipt := 2000, now_bookingId := 2001, random := ''zzzzzzzzz''\<rparr>]
        sample_system))
     = [Some ''booking_1001_k3j9x0q2a'', Some ''booking_2001_zzzzzzzzz''] \<and>
   gateway_orders (snd (createOrders sample_numerics sample_gateway sample_create
        [sample_env,
         sample_env\<lparr>now_receipt := 2000, now_bookingId := 2001, random := ''zzzzzzzzz''\<rparr>]
        sample_system))
     = [\<lparr>amount = Num 20000, currency = ''INR'', receipt = ''booking_E1_1000'',
         notes_eventId = ''E1'', notes_ticketCount = ''2''\<rparr>,
        \<lparr>amount = Num 20000, currency = ''INR'', receipt = ''booking_E1_2000'',
         notes_eventId = ''E1'', notes_ticketCount = ''2''\<rparr>] \<and>
   bookings (snd (createOrders sample_numerics sample_gateway sample_create
        [sample_env,
         sample_env\<lparr>now_receipt := 2000, now_bookingId := 2001, random := ''zzzzzzzzz''\<rparr>]
        sample_system)) = []"
  by (simp add: createOrder_def sample_create_def sample_env_def sample_gateway_def
      sample_system_def sample_numerics_def order_options_of_def truthy_def nonzero_def
      decimal.simps digit_def accept_def Let_def)

text \<open>
  C7, as the code has it. \<open>createOrder\<close> answers 400 "Missing required fields" when
  eventId is absent or empty or when ticketCount or amount is absent or zero, and then
  nothing else happens. Every other call, negative numbers included, sends one order
  request to the gateway and is answered 200 with the order when the gateway returns one,
  and 500 with the error text when the gateway call throws. The event and user collections
  are not read: the answer and the order request are the same whatever they hold.
\<close>

theorem createOrder_presence_check_only:
  "(eventId q \<in> {None, Some []} \<or> ticketCount q \<in> {None, Some (Num 0)} \<or>
      req_amount q \<in> {None, Some (Num 0)} \<longrightarrow>
      createOrder nm oc e q s
        = (\<lparr>statusCode = 400, success = False,
            message = Some ''Missing required fields: eventId, ticketCount, amount'',
            payload = None, error = None\<rparr>, s)) \<and>
   (\<forall>eid tc amt. eventId q = Some eid \<and> eid \<noteq> [] \<and> ticketCount q = Some tc \<and> tc \<noteq> Num 0 \<and>
        req_amount q = Some amt \<and> amt \<noteq> Num 0 \<longrightarrow>
      fst (createOrder nm oc e q s)
        = (case oc (order_options_of nm e eid tc amt (req_currency q)) of
             Inl err \<Rightarrow>
               \<lparr>statusCode = 500, success = False,
                message = Some ''Failed to create payment order'',
                payload = None, error = Some err\<rparr>
           | Inr order \<Rightarrow>
               \<lparr>statusCode = 200, success = True, message = None,
                payload = Some \<lparr>view_id = order_id order,
                                view_amount = div_100 nm (order_amount order),
                                view_currency = order_currency order,
                                view_receipt = order_receipt order,
                                view_bookingId =
                                  ''booking_'' @ toString nm (Num (of_nat (now_bookingId e)))
                                    @ ''_'' @ random e\<rparr>,
                error = None\<rparr>) \<and>
      gateway_orders (snd (createOrder nm oc e q s))
        = gateway_orders s @ [order_options_of nm e eid tc amt (req_currency q)]) \<and>
   fst (createOrder nm oc e q (s\<lparr>events := es, users := us\<rparr>)) = fst (createOrder nm oc e q s) \<and>
   gateway_orders (snd (createOrder nm oc e q (s\<lparr>events := es, users := us\<rparr>)))
     = gateway_orders (snd (createOrder nm oc e q s))"
proof (intro conjI allI impI)
  assume "eventId q \<in> {None, Some []} \<or> ticketCount q \<in> {None, Some (Num 0)} \<or>
      req_amount q \<in> {None, Some (Num 0)}"
  then show "createOrder nm oc e q s
        = (\<lparr>statusCode = 400, success = False,
            message = Some ''Missing required fields: eventId, ticketCount, amount'',
            payload = None, error = None\<rparr>, s)"
    using createOrder_missing [of q nm oc e s] by (simp add: reject_def)
next
  fix eid tc amt
  assume a: "eventId q = Some eid \<and> eid \<noteq> [] \<and> ticketCount q = Some tc \<and> tc \<noteq> Num 0 \<and>
        req_amount q = Some amt \<and> amt \<noteq> Num 0"
  then show "fst (createOrder nm oc e q s)
        = (case oc (order_options_of nm e eid tc amt (req_currency q)) of
             Inl err \<Rightarrow>
               \<lparr>statusCode = 500, success = False,
                message = Some ''Failed to create payment order'',
                payload = None, error = Some err\<rparr>
           | Inr order \<Rightarrow>
               \<lparr>statusCode = 200, success = True, message = None,
                payload = Some \<lparr>view_id = order_id order,
                                view_amount = div_100 nm (order_amount order),
                                view_currency = order_currency order,
                                view_receipt = order_receipt order,
                                view_bookingId =
                                  ''booking_'' @ toString nm (Num (of_nat (now_bookingId e)))
                                    @ ''_'' @ random e\<rparr>,
                error = None\<rparr>)"
    by (simp add: createOrder_answer)
  from a show "gateway_orders (snd (createOrder nm oc e q s))
        = gateway_orders s @ [order_options_of nm e eid tc amt (req_currency q)]"
    by (simp add: createOrder_gateway_orders)
next
  show "fst (createOrder nm oc e q (s\<lparr>events := es, users := us\<rparr>))
          = fst (createOrder nm oc e q s)"
    by (simp add: createOrder_def Let_def split: option.splits sum.splits)
  show "gateway_orders (snd (createOrder nm oc e q (s\<lparr>events := es, users := us\<rparr>)))
     = gateway_orders (snd (createOrder nm oc e q s))"
    by (simp add: createOrder_def Let_def split: option.splits sum.splits)
qed

theorem createOrder_presence_check_only_witness:
  "req_amount (sample_create\<lparr>req_amount := Some (Num 0)\<rparr>) \<in> {None, Some (Num 0)} \<and>
   statusCode (fst (createOrder sample_numerics sample_gateway sample_env
       (sample_create\<lparr>req_amount := Some (Num 0)\<rparr>) sample_system)) = 400 \<and>
   gateway_orders (snd (createOrder sample_numerics sample_gateway sample_env
       (sample_create\<lparr>req_amount := Some (Num 0)\<rparr>) sample_system)) = [] \<and>
   req_amount sample_create = Some (Num 200) \<and>
   statusCode (fst (createOrder sample_numerics sample_gateway sample_env sample_create
       sample_system)) = 200 \<and>
   statusCode (fst (createOrder sample_numerics (\<lambda>opt. Inl ''timeout'') sample_env sample_create
       sample_system)) = 500 \<and>
   length (gateway_orders (snd (createOrder sample_numerics sample_gateway sample_env
       sample_create sample_system))) = 1"
proof -
  have z: "req_amount (sample_create\<lparr>req_amount := Some (Num 0)\<rparr>) \<in> {None, Some (Num 0)}"
    by simp
  have f: "eventId sample_create = Some ''E1''" "''E1'' \<noteq> []"
    "ticketCount sample_create = Some (Num 2)" "Num 2 \<noteq> Num 0"
    "req_amount sample_create = Some (Num 200)" "Num 200 \<noteq> Num 0"
    by (simp_all add: sample_create_def)
  show ?thesis
    using z f
      createOrder_presence_check_only
        [of "sample_create\<lparr>req_amount := Some (Num 0)\<rparr>" sample_numerics sample_gateway
            sample_env sample_system]
      createOrder_presence_check_only
        [of sample_create sample_numerics sample_gateway sample_env sample_system]
      createOrder_presence_check_only
        [of sample_create sample_numerics "\<lambda>opt. Inl ''timeout''" sample_env sample_system]
    by (simp add: sample_system_def sample_gateway_def)
qed

text \<open>
  C7 as stated fails: with no event and no user in the store the call is answered 200 and
  the order request is sent, and a call with ticketCount -2 and amount -5 sends an order
  request for -500.
\<close>

theorem createOrder_unknown_event_counterexample:
  "events (sample_system\<lparr>events := [], users := []\<rparr>) = [] \<and>
   users (sample_system\<lparr>events := [], users := []\<rparr>) = [] \<and>
   statusCode (fst (createOrder sample_numerics sample_gateway sample_env sample_create
       (sample_system\<lparr>events := [], users := []\<rparr>))) = 200 \<and>
   gateway_orders (snd (createOrder sample_numerics sample_gateway sample_env sample_create
       (sample_system\<lparr>events := [], users := []\<rparr>)))
     = [\<lparr>amount = Num 20000, currency = ''INR'', receipt = ''booking_E1_1000'',
         notes_eventId = ''E1'', notes_ticketCount = ''2''\<rparr>] \<and>
   gateway_orders (snd (createOrder sample_numerics sample_gateway sample_env
       (sample_create\<lparr>ticketCount := Some (Num (- 2)), req_amount := Some (Num (- 5))\<rparr>)
       sample_system))
     = [\<lparr>amount = Num (- 500), currency = ''INR'', receipt = ''booking_E1_1000'',
         notes_eventId = ''E1'', notes_ticketCount = ''-2''\<rparr>]"
  by (simp add: createOrder_def sample_create_def sample_env_def sample_gateway_def
      sample_system_def sample_numerics_def order_options_of_def truthy_def nonzero_def
      decimal.simps digit_def accept_def Let_def)

section \<open>Receiving a webhook\<close>

lemma handleWebhook_ack:
  assumes "map_of (headers r) ''x-razorpay-signature''
             = Some (h (or_default (RAZORPAY_WEBHOOK_SECRET e) ''webhook_secret'') (j (body r)))"
    and "webhook_log (body r) = Inr line"
  shows "handleWebhook h j e r s
           = (accept 200 None (Some True), s\<lparr>console := console s @ [line]\<rparr>)"
  using assms by (simp add: handleWebhook_def Let_def)

text \<open>
  C4, as the code has it. \<open>handleWebhook\<close> keeps no record of the deliveries it has
  seen. A delivery with the expected signature whose payload has the entity its event type
  names is acknowledged with 200 and logged; delivered \<open>n\<close> times it is acknowledged
  \<open>n\<close> times and logged \<open>n\<close> times, each delivery handled like the first.
\<close>

theorem handleWebhook_replay:
  assumes "map_of (headers r) ''x-razorpay-signature''
             = Some (h (or_default (RAZORPAY_WEBHOOK_SECRET e) ''webhook_secret'') (j (body r)))"
    and "webhook_log (body r) = Inr line"
  shows "fst (deliver h j e r n s)
           = replicate n \<lparr>statusCode = 200, success = True, message = None,
                          payload = Some True, error = None\<rparr> \<and>
         console (snd (deliver h j e r n s)) = console s @ replicate n line"
proof -
  have step: "handleWebhook h j e r t
                = (accept 200 None (Some True), t\<lparr>console := console t @ [line]\<rparr>)" for t
    using assms by (rule handleWebhook_ack)
  have "deliver h j e r n s
          = (replicate n (accept 200 None (Some True)),
             s\<lparr>console := console s @ replicate n line\<rparr>)"
  proof (induction n arbitrary: s)
    case 0
    show ?case by simp
  next
    case (Suc n)
    show ?case
      by (simp add: step Suc replicate_app_Cons_same)
  qed
  then show ?thesis by (simp add: accept_def)
qed

theorem handleWebhook_replay_witness:
  "map_of (headers sample_webhook) ''x-razorpay-signature''
     = Some (sample_hmac (or_default (RAZORPAY_WEBHOOK_SECRET sample_env) ''webhook_secret'')
               (sample_stringify (body sample_webhook))) \<and>
   webhook_log (body sample_webhook) = Inr ''Payment captured: P1'' \<and>
   map statusCode (fst (deliver sample_hmac sample_stringify sample_env sample_webhook 3
       sample_system)) = [200, 200, 200] \<and>
   console (snd (deliver sample_hmac sample_stringify sample_env sample_webhook 3 sample_system))
     = [''Payment captured: P1'', ''Payment captured: P1'', ''Payment captured: P1'']"
proof -
  have sg: "map_of (headers sample_webhook) ''x-razorpay-signature''
     = Some (sample_hmac (or_default (RAZORPAY_WEBHOOK_SECRET sample_env) ''webhook_secret'')
               (sample_stringify (body sample_webhook)))"
    by (simp add: sample_webhook_def sample_hmac_def sample_stringify_def sample_env_def
        or_default_def truthy_def)
  have lg: "webhook_log (body sample_webhook) = Inr ''Payment captured: P1''"
    by (simp add: sample_webhook_def webhook_log_def entity_id_def)
  have r3: "replicate 3 x = [x, x, x]" for x :: 'a
    by (simp add: numeral_3_eq_3)
  show ?thesis
    using sg lg handleWebhook_replay
      [where h = sample_hmac and j = sample_stringify and e = sample_env and n = 3
         and s = sample_system, OF sg lg]
    by (simp add: r3 sample_system_def)
qed

text \<open>
  C4 as stated fails: the captured-payment event evt_1 for the pending booking B1 is
  delivered twice; both deliveries are acknowledged and both are handled, and the booking
  is pending as before, so there is no state transition where the claim has exactly one.
\<close>

theorem handleWebhook_no_transition_counterexample:
  "map_of (headers sample_webhook) ''x-razorpay-event-id'' = Some ''evt_1'' \<and>
   deliver sample_hmac sample_stringify sample_env sample_webhook 2
       (sample_system\<lparr>bookings := [sample_booking ''pending'']\<rparr>)
     = ([\<lparr>statusCode = 200, success = True, message = None, payload = Some True, error = None\<rparr>,
         \<lparr>statusCode = 200, success = True, message = None, payload = Some True, error = None\<rparr>],
        sample_system\<lparr>bookings := [sample_booking ''pending''],
                       console := [''Payment captured: P1'', ''Payment captured: P1'']\<rparr>)"
  by (simp add: numeral_2_eq_2 sample_webhook_def sample_hmac_def sample_stringify_def
      sample_env_def sample_system_def handleWebhook_def webhook_log_def entity_id_def
      or_default_def truthy_def accept_def Let_def)

end
